theory Spec2Isabelle
  imports Main
begin

section \<open>HarmonyLink: the store and its operations\<close>

text \<open>
  The program keeps five tables in one SQLite file and offers one Python function per
  operation. Every function opens its own connection (\<open>get_connection\<close>), executes its
  statements, commits and closes. The model follows that shape: a table is the list of
  its rows in rowid order, a table that has not been created yet is \<open>None\<close>, a connection
  carries the committed file, the uncommitted view of its transaction and its
  \<open>foreign_keys\<close> setting, and an exception of the \<open>sqlite3\<close> module is an \<open>Inl\<close> result.

  SQL text is \<open>string\<close>, a nullable column is an \<open>option\<close>. An integer that Python
  passes as a parameter must fit in 64 bits, and the two columns the program computes
  with hold SQLite numbers, integers or reals (see below); keys are HOL integers and are
  taken to stay within the 64 bits of a rowid. \<open>CURRENT_TIMESTAMP\<close> is read from a clock that every operation receives as
  the number of seconds since the epoch; a calendar date (the text \<open>YYYY-MM-DD\<close> that
  \<open>DATE\<close> returns) is the number of its day.
\<close>

subsection \<open>Rows and tables (SCHEMA_SQL)\<close>

type_synonym timestamp = int
type_synonym date = int

record user_row =
  u_user_id :: int
  u_name :: string
  u_email :: string
  u_password_hash :: string
  u_created_at :: "timestamp option"

record mood_session_row =
  ms_session_id :: int
  ms_user_id :: int
  ms_stress_level :: int
  ms_q1_answer :: "string option"
  ms_q2_answer :: "string option"
  ms_q3_answer :: "string option"
  ms_points_earned :: int
  ms_created_at :: "timestamp option"

record breathing_level_row =
  bl_level_id :: int
  bl_title :: string
  bl_description :: "string option"
  bl_duration_seconds :: int
  bl_base_points :: int

record breathing_session_row =
  bs_breathing_session_id :: int
  bs_user_id :: int
  bs_session_id :: "int option"
  bs_level_id :: int
  bs_started_at :: "timestamp option"
  bs_completed_at :: "timestamp option"
  bs_points_earned :: int

text \<open>
  An SQLite integer is a signed 64-bit value.
\<close>

definition int64 :: "int \<Rightarrow> bool" where
  "int64 n = (- (2 ^ 63) \<le> n \<and> n < 2 ^ 63)"

text \<open>
  A value of \<open>total_points\<close> or \<open>current_streak_days\<close>: an integer, or a real once an addition
  has left the 64 bits. Every real that arises is a sum of whole numbers rounded to a
  double, so it is a whole number itself, and \<open>REAL v\<close> is the double whose value is \<open>v\<close>.
\<close>

datatype number = INTEGER int | REAL int

text \<open>
  The double nearest to a whole number: 53 significant bits, ties to the even one. (Sums
  of 64-bit values stay far below the largest double, so no infinity arises.)
\<close>

function bit_length :: "int \<Rightarrow> nat" where
  "bit_length n = (if n \<le> 0 then 0 else Suc (bit_length (n div 2)))"
  by pat_completeness auto
termination
  by (relation "measure nat") auto

definition to_double :: "int \<Rightarrow> int" where
  "to_double n =
     (if \<bar>n\<bar> < 2 ^ 53 then n
      else
        let e = bit_length \<bar>n\<bar> - 53;
            q = \<bar>n\<bar> div 2 ^ e;
            r = \<bar>n\<bar> mod 2 ^ e;
            q' = (if 2 * r > 2 ^ e \<or> (2 * r = 2 ^ e \<and> odd q) then q + 1 else q)
        in sgn n * (q' * 2 ^ e))"

text \<open>
  A column declared \<open>INTEGER\<close> stores a real as an integer again when it is one strictly
  between the smallest and the largest 64-bit value.
\<close>

definition integer_affinity :: "int \<Rightarrow> number" where
  "integer_affinity v = (if - (2 ^ 63) < v \<and> v < 2 ^ 63 - 1 then INTEGER v else REAL v)"

text \<open>
  \<open>column + b\<close> for a 64-bit \<open>b\<close>, as the \<open>UPDATE\<close> stores it: integer addition while the
  sum fits, otherwise (and for a column that already holds a real) the addition of the
  two doubles.
\<close>

definition sql_add :: "number \<Rightarrow> int \<Rightarrow> number" where
  "sql_add x b =
     (case x of
        INTEGER a \<Rightarrow>
          if int64 (a + b) then INTEGER (a + b)
          else integer_affinity (to_double (to_double a + to_double b))
      | REAL v \<Rightarrow> integer_affinity (to_double (v + to_double b)))"

record user_stats_row =
  us_user_id :: int
  us_total_points :: number
  us_current_streak_days :: number
  us_last_activity_date :: "date option"

text \<open>
  The file. The three \<open>seq\<close> fields are the rows of \<open>sqlite_sequence\<close>, which SQLite keeps
  for the \<open>AUTOINCREMENT\<close> keys: the largest rowid ever handed out in the table (0 before
  the first insert).
\<close>

record db =
  users :: "user_row list option"
  mood_sessions :: "mood_session_row list option"
  breathing_levels :: "breathing_level_row list option"
  breathing_sessions :: "breathing_session_row list option"
  user_stats :: "user_stats_row list option"
  seq_users :: int
  seq_mood_sessions :: int
  seq_breathing_sessions :: int

definition empty_db :: db where
  "empty_db = \<lparr>users = None, mood_sessions = None, breathing_levels = None,
     breathing_sessions = None, user_stats = None,
     seq_users = 0, seq_mood_sessions = 0, seq_breathing_sessions = 0\<rparr>"

subsection \<open>Errors and connections\<close>

text \<open>
  \<open>sqlite3.IntegrityError\<close> with the constraint that failed,
  \<open>sqlite3.OperationalError\<close> for a statement on a table that does not exist, and the
  \<open>OverflowError\<close> that Python raises when an integer parameter does not fit in 64 bits.
\<close>

datatype constraint_kind = UNIQUE | CHECK | FOREIGN_KEY

datatype error = IntegrityError constraint_kind | OperationalError | OverflowError

record connection =
  foreign_keys :: bool
  db_file :: db
  txn :: db

text \<open>
  \<open>sqlite3.connect\<close> opens the file with SQLite's defaults; foreign-key enforcement is a
  setting of the connection and is off until the connection itself runs
  \<open>PRAGMA foreign_keys = ON\<close>. \<open>get_connection\<close> does not run it.
\<close>

definition get_connection :: "db \<Rightarrow> connection" where
  "get_connection d = \<lparr>foreign_keys = False, db_file = d, txn = d\<rparr>"

text \<open>
  \<open>cur.execute\<close>: the statement sees and changes the connection's transaction; when it
  raises, nothing has been changed. The statement is prepared first (a missing table is
  found then), its parameters are bound next, and only then does it run.
\<close>

definition execute ::
  "(bool \<Rightarrow> db \<Rightarrow> error + db \<times> 'a) \<Rightarrow> connection \<Rightarrow> error + connection \<times> 'a" where
  "execute stmt c =
     (case stmt (foreign_keys c) (txn c) of
        Inl e \<Rightarrow> Inl e
      | Inr (d, a) \<Rightarrow> Inr (c\<lparr>txn := d\<rparr>, a))"

definition bind :: "int list \<Rightarrow> bool" where
  "bind parameters = list_all int64 parameters"

definition commit :: "connection \<Rightarrow> connection" where
  "commit c = c\<lparr>db_file := txn c\<rparr>"

text \<open>
  \<open>conn.close()\<close>, and equally a connection that is dropped when an exception leaves the
  function: what was not committed is rolled back, the file is what remains. (The dropped
  connection is taken to be finalised before the next call opens its own.)
\<close>

definition close :: "connection \<Rightarrow> db" where
  "close c = db_file c"

subsection \<open>Clock\<close>

text \<open>\<open>DATE('now', 'k day')\<close>: the day of the instant \<open>k\<close> days from now.\<close>

definition DATE :: "timestamp \<Rightarrow> int \<Rightarrow> date" where
  "DATE now k = (now + k * 86400) div 86400"

subsection \<open>Keys\<close>

text \<open>
  The rowid of an \<open>INTEGER PRIMARY KEY AUTOINCREMENT\<close> insert: one more than the largest
  rowid the table holds or has ever held.
\<close>

definition max_rowid :: "int list \<Rightarrow> int" where
  "max_rowid ids = foldr max ids 0"

definition next_rowid :: "int \<Rightarrow> int list \<Rightarrow> int" where
  "next_rowid seq ids = max seq (max_rowid ids) + 1"

text \<open>
  Foreign keys are looked at only on a connection that enforces them. There, a statement
  on a child table whose parent table is missing cannot be prepared, and a child row
  whose parent row is missing violates the constraint.
\<close>

definition fk_no_table :: "bool \<Rightarrow> 'a list option \<Rightarrow> bool" where
  "fk_no_table fk parent = (fk \<and> parent = None)"

definition fk_violated :: "bool \<Rightarrow> 'a list option \<Rightarrow> ('a \<Rightarrow> int) \<Rightarrow> int \<Rightarrow> bool" where
  "fk_violated fk parent key k =
     (fk \<and> (case parent of None \<Rightarrow> True | Some rows \<Rightarrow> k \<notin> set (map key rows)))"

subsection \<open>The statements of the functions\<close>

text \<open>
  \<open>INSERT INTO users (name, email, password_hash) VALUES (?, ?, ?)\<close>. The three columns
  are \<open>NOT NULL\<close> text and the parameters are strings; \<open>email\<close> is \<open>UNIQUE\<close>.
\<close>

definition insert_users ::
  "timestamp \<Rightarrow> string \<Rightarrow> string \<Rightarrow> string \<Rightarrow> bool \<Rightarrow> db \<Rightarrow> error + db \<times> int" where
  "insert_users now name email password_hash fk d =
     (case users d of
        None \<Rightarrow> Inl OperationalError
      | Some rows \<Rightarrow>
          if email \<in> set (map u_email rows) then Inl (IntegrityError UNIQUE)
          else
            let user_id = next_rowid (seq_users d) (map u_user_id rows)
            in Inr (d\<lparr>users := Some (rows @
                        [\<lparr>u_user_id = user_id, u_name = name, u_email = email,
                          u_password_hash = password_hash, u_created_at = Some now\<rparr>]),
                      seq_users := user_id\<rparr>, user_id))"

text \<open>
  \<open>INSERT INTO user_stats (user_id) VALUES (?)\<close>: the other columns take their defaults.
  \<open>user_id\<close> is the primary key, and a foreign key into \<open>users\<close>. The parameter is the
  \<open>lastrowid\<close> of the insert before, a rowid.
\<close>

definition insert_user_stats :: "int \<Rightarrow> bool \<Rightarrow> db \<Rightarrow> error + db \<times> int" where
  "insert_user_stats user_id fk d =
     (case user_stats d of
        None \<Rightarrow> Inl OperationalError
      | Some rows \<Rightarrow>
          if fk_no_table fk (users d) then Inl OperationalError
          else if user_id \<in> set (map us_user_id rows) then Inl (IntegrityError UNIQUE)
          else if fk_violated fk (users d) u_user_id user_id then Inl (IntegrityError FOREIGN_KEY)
          else Inr (d\<lparr>user_stats := Some (insort_key us_user_id
                        \<lparr>us_user_id = user_id, us_total_points = INTEGER 0,
                         us_current_streak_days = INTEGER 0,
                         us_last_activity_date = None\<rparr> rows)\<rparr>,
                    user_id))"

text \<open>
  \<open>INSERT INTO mood_sessions (user_id, stress_level, q1_answer, q2_answer, q3_answer,
  points_earned) VALUES (?, ?, ?, ?, ?, ?)\<close>, with
  \<open>CHECK (stress_level BETWEEN 1 AND 5)\<close> and the foreign key into \<open>users\<close>.
\<close>

definition insert_mood_sessions ::
  "timestamp \<Rightarrow> int \<Rightarrow> int \<Rightarrow> string option \<Rightarrow> string option \<Rightarrow> string option \<Rightarrow> int \<Rightarrow>
   bool \<Rightarrow> db \<Rightarrow> error + db \<times> int" where
  "insert_mood_sessions now user_id stress_level q1 q2 q3 points_earned fk d =
     (case mood_sessions d of
        None \<Rightarrow> Inl OperationalError
      | Some rows \<Rightarrow>
          if fk_no_table fk (users d) then Inl OperationalError
          else if \<not> bind [user_id, stress_level, points_earned] then Inl OverflowError
          else if \<not> (1 \<le> stress_level \<and> stress_level \<le> 5) then Inl (IntegrityError CHECK)
          else if fk_violated fk (users d) u_user_id user_id then Inl (IntegrityError FOREIGN_KEY)
          else
            let sid = next_rowid (seq_mood_sessions d) (map ms_session_id rows)
            in Inr (d\<lparr>mood_sessions := Some (rows @
                        [\<lparr>ms_session_id = sid, ms_user_id = user_id,
                          ms_stress_level = stress_level, ms_q1_answer = q1,
                          ms_q2_answer = q2, ms_q3_answer = q3,
                          ms_points_earned = points_earned, ms_created_at = Some now\<rparr>]),
                      seq_mood_sessions := sid\<rparr>, sid))"

text \<open>
  \<open>INSERT INTO breathing_sessions (user_id, session_id, level_id, points_earned)
  VALUES (?, ?, ?, ?)\<close>, with foreign keys into \<open>users\<close>, \<open>mood_sessions\<close> (when
  \<open>session_id\<close> is not null) and \<open>breathing_levels\<close>.
\<close>

definition insert_breathing_sessions ::
  "timestamp \<Rightarrow> int \<Rightarrow> int option \<Rightarrow> int \<Rightarrow> int \<Rightarrow> bool \<Rightarrow> db \<Rightarrow> error + db \<times> int" where
  "insert_breathing_sessions now user_id session_id level_id points_earned fk d =
     (case breathing_sessions d of
        None \<Rightarrow> Inl OperationalError
      | Some rows \<Rightarrow>
          if fk_no_table fk (users d) \<or> fk_no_table fk (mood_sessions d)
             \<or> fk_no_table fk (breathing_levels d) then Inl OperationalError
          else if \<not> bind ([user_id, level_id, points_earned]
                          @ (case session_id of None \<Rightarrow> [] | Some sid \<Rightarrow> [sid]))
          then Inl OverflowError
          else if fk_violated fk (users d) u_user_id user_id
             \<or> (case session_id of None \<Rightarrow> False
                 | Some sid \<Rightarrow> fk_violated fk (mood_sessions d) ms_session_id sid)
             \<or> fk_violated fk (breathing_levels d) bl_level_id level_id
          then Inl (IntegrityError FOREIGN_KEY)
          else
            let bid = next_rowid (seq_breathing_sessions d) (map bs_breathing_session_id rows)
            in Inr (d\<lparr>breathing_sessions := Some (rows @
                        [\<lparr>bs_breathing_session_id = bid, bs_user_id = user_id,
                          bs_session_id = session_id, bs_level_id = level_id,
                          bs_started_at = Some now, bs_completed_at = None,
                          bs_points_earned = points_earned\<rparr>]),
                      seq_breathing_sessions := bid\<rparr>, bid))"

text \<open>
  The \<open>UPDATE user_stats SET ... WHERE user_id = ?\<close> of \<open>update_user_stats\<close>. Every
  right-hand side reads the row as it was before the statement. A comparison with a null
  \<open>last_activity_date\<close> is not true, so the \<open>CASE\<close> falls through to \<open>ELSE 1\<close>.
\<close>

definition streak_case :: "timestamp \<Rightarrow> user_stats_row \<Rightarrow> number" where
  "streak_case now r =
     (if us_last_activity_date r = Some (DATE now (- 1)) then sql_add (us_current_streak_days r) 1
      else if us_last_activity_date r = Some (DATE now 0) then us_current_streak_days r
      else INTEGER 1)"

definition update_user_stats_row :: "timestamp \<Rightarrow> int \<Rightarrow> user_stats_row \<Rightarrow> user_stats_row" where
  "update_user_stats_row now added_points r =
     r\<lparr>us_total_points := sql_add (us_total_points r) added_points,
       us_current_streak_days := streak_case now r,
       us_last_activity_date := Some (DATE now 0)\<rparr>"

definition update_user_stats_set ::
  "timestamp \<Rightarrow> int \<Rightarrow> int \<Rightarrow> bool \<Rightarrow> db \<Rightarrow> error + db \<times> unit" where
  "update_user_stats_set now added_points user_id fk d =
     (case user_stats d of
        None \<Rightarrow> Inl OperationalError
      | Some rows \<Rightarrow>
          if \<not> bind [added_points, user_id] then Inl OverflowError
          else
          Inr (d\<lparr>user_stats := Some (map (\<lambda>r. if us_user_id r = user_id
                                              then update_user_stats_row now added_points r
                                              else r) rows)\<rparr>, ()))"

text \<open>
  \<open>DELETE FROM users WHERE user_id = ?\<close>. The schema declares \<open>ON DELETE CASCADE\<close> on
  the three tables that reference \<open>users\<close>, and \<open>ON DELETE SET NULL\<close> on
  \<open>breathing_sessions.session_id\<close>; these actions run only on a connection that enforces
  foreign keys, and only for a parent row that is really deleted.
\<close>

definition set_null_session :: "int list \<Rightarrow> breathing_session_row \<Rightarrow> breathing_session_row" where
  "set_null_session gone r =
     (case bs_session_id r of
        None \<Rightarrow> r
      | Some sid \<Rightarrow> if sid \<in> set gone then r\<lparr>bs_session_id := None\<rparr> else r)"

definition cascade_user :: "int \<Rightarrow> db \<Rightarrow> db" where
  "cascade_user user_id d =
     (let gone = (case mood_sessions d of
                    None \<Rightarrow> []
                  | Some ms \<Rightarrow> map ms_session_id (filter (\<lambda>r. ms_user_id r = user_id) ms))
      in d\<lparr>mood_sessions := map_option (filter (\<lambda>r. ms_user_id r \<noteq> user_id)) (mood_sessions d),
           breathing_sessions :=
             map_option (\<lambda>bs. map (set_null_session gone) (filter (\<lambda>r. bs_user_id r \<noteq> user_id) bs))
               (breathing_sessions d),
           user_stats := map_option (filter (\<lambda>r. us_user_id r \<noteq> user_id)) (user_stats d)\<rparr>)"

definition delete_users :: "int \<Rightarrow> bool \<Rightarrow> db \<Rightarrow> error + db \<times> unit" where
  "delete_users user_id fk d =
     (case users d of
        None \<Rightarrow> Inl OperationalError
      | Some rows \<Rightarrow>
          if \<not> bind [user_id] then Inl OverflowError
          else
            let d' = d\<lparr>users := Some (filter (\<lambda>r. u_user_id r \<noteq> user_id) rows)\<rparr>
            in if fk \<and> user_id \<in> set (map u_user_id rows) then Inr (cascade_user user_id d', ())
               else Inr (d', ()))"

text \<open>\<open>DELETE FROM mood_sessions WHERE session_id = ?\<close>.\<close>

definition delete_mood_sessions :: "int \<Rightarrow> bool \<Rightarrow> db \<Rightarrow> error + db \<times> unit" where
  "delete_mood_sessions session_id fk d =
     (case mood_sessions d of
        None \<Rightarrow> Inl OperationalError
      | Some rows \<Rightarrow>
          if \<not> bind [session_id] then Inl OverflowError
          else
            let d' = d\<lparr>mood_sessions := Some (filter (\<lambda>r. ms_session_id r \<noteq> session_id) rows)\<rparr>
            in if fk \<and> session_id \<in> set (map ms_session_id rows)
               then Inr (d'\<lparr>breathing_sessions :=
                              map_option (map (set_null_session [session_id])) (breathing_sessions d')\<rparr>, ())
               else Inr (d', ()))"

text \<open>\<open>DELETE FROM breathing_sessions WHERE breathing_session_id = ?\<close>.\<close>

definition delete_breathing_sessions :: "int \<Rightarrow> bool \<Rightarrow> db \<Rightarrow> error + db \<times> unit" where
  "delete_breathing_sessions breathing_session_id fk d =
     (case breathing_sessions d of
        None \<Rightarrow> Inl OperationalError
      | Some rows \<Rightarrow>
          if \<not> bind [breathing_session_id] then Inl OverflowError
          else
          Inr (d\<lparr>breathing_sessions :=
                   Some (filter (\<lambda>r. bs_breathing_session_id r \<noteq> breathing_session_id) rows)\<rparr>, ()))"

text \<open>
  \<open>DELETE FROM breathing_levels WHERE level_id = ?\<close>. The foreign key of
  \<open>breathing_sessions.level_id\<close> has no \<open>ON DELETE\<close> action: on a connection that
  enforces foreign keys, deleting a level that a session references fails.
\<close>

definition delete_breathing_levels :: "int \<Rightarrow> bool \<Rightarrow> db \<Rightarrow> error + db \<times> unit" where
  "delete_breathing_levels level_id fk d =
     (case breathing_levels d of
        None \<Rightarrow> Inl OperationalError
      | Some rows \<Rightarrow>
          if \<not> bind [level_id] then Inl OverflowError
          else if fk \<and> level_id \<in> set (map bl_level_id rows)
             \<and> (case breathing_sessions d of
                  None \<Rightarrow> False
                | Some bs \<Rightarrow> level_id \<in> set (map bs_level_id bs))
          then Inl (IntegrityError FOREIGN_KEY)
          else Inr (d\<lparr>breathing_levels := Some (filter (\<lambda>r. bl_level_id r \<noteq> level_id) rows)\<rparr>, ()))"

text \<open>\<open>DELETE FROM user_stats WHERE user_id = ?\<close>.\<close>

definition delete_user_stats_rows :: "int \<Rightarrow> bool \<Rightarrow> db \<Rightarrow> error + db \<times> unit" where
  "delete_user_stats_rows user_id fk d =
     (case user_stats d of
        None \<Rightarrow> Inl OperationalError
      | Some rows \<Rightarrow>
          if \<not> bind [user_id] then Inl OverflowError
          else
          Inr (d\<lparr>user_stats := Some (filter (\<lambda>r. us_user_id r \<noteq> user_id) rows)\<rparr>, ()))"

subsection \<open>SCHEMA_SQL as a script\<close>

text \<open>
  \<open>executescript\<close> runs the statements one after the other outside any transaction, so
  each one is committed as soon as it has run, and the script stops at the first
  statement that fails.
\<close>

type_synonym script_statement = "connection \<Rightarrow> error + connection"

definition pragma_foreign_keys_on :: script_statement where
  "pragma_foreign_keys_on c = Inr (c\<lparr>foreign_keys := True\<rparr>)"

definition autocommit :: "(bool \<Rightarrow> db \<Rightarrow> error + db \<times> unit) \<Rightarrow> script_statement" where
  "autocommit stmt c =
     (case execute stmt c of Inl e \<Rightarrow> Inl e | Inr (c', _) \<Rightarrow> Inr (commit c'))"

definition create_table_if_not_exists :: "'a list option \<Rightarrow> 'a list option" where
  "create_table_if_not_exists t = (case t of None \<Rightarrow> Some [] | Some rows \<Rightarrow> Some rows)"

definition create_users :: "bool \<Rightarrow> db \<Rightarrow> error + db \<times> unit" where
  "create_users fk d = Inr (d\<lparr>users := create_table_if_not_exists (users d)\<rparr>, ())"

definition create_mood_sessions :: "bool \<Rightarrow> db \<Rightarrow> error + db \<times> unit" where
  "create_mood_sessions fk d =
     Inr (d\<lparr>mood_sessions := create_table_if_not_exists (mood_sessions d)\<rparr>, ())"

definition create_breathing_levels :: "bool \<Rightarrow> db \<Rightarrow> error + db \<times> unit" where
  "create_breathing_levels fk d =
     Inr (d\<lparr>breathing_levels := create_table_if_not_exists (breathing_levels d)\<rparr>, ())"

definition create_breathing_sessions :: "bool \<Rightarrow> db \<Rightarrow> error + db \<times> unit" where
  "create_breathing_sessions fk d =
     Inr (d\<lparr>breathing_sessions := create_table_if_not_exists (breathing_sessions d)\<rparr>, ())"

definition create_user_stats :: "bool \<Rightarrow> db \<Rightarrow> error + db \<times> unit" where
  "create_user_stats fk d =
     Inr (d\<lparr>user_stats := create_table_if_not_exists (user_stats d)\<rparr>, ())"

text \<open>The \<open>VALUES\<close> of the seed statement, in the order of the script.\<close>

definition seed_levels :: "breathing_level_row list" where
  "seed_levels =
     [\<lparr>bl_level_id = 1, bl_title = ''Level 1 - Easy'',
       bl_description = Some ''Short and simple breathing exercise.'',
       bl_duration_seconds = 60, bl_base_points = 10\<rparr>,
      \<lparr>bl_level_id = 2, bl_title = ''Level 2 - Light'',
       bl_description = Some ''Slightly longer breathing exercise.'',
       bl_duration_seconds = 120, bl_base_points = 20\<rparr>,
      \<lparr>bl_level_id = 3, bl_title = ''Level 3 - Medium'',
       bl_description = Some ''Moderate breathing exercise.'',
       bl_duration_seconds = 180, bl_base_points = 30\<rparr>,
      \<lparr>bl_level_id = 4, bl_title = ''Level 4 - Hard'',
       bl_description = Some ''Longer and more intense breathing.'',
       bl_duration_seconds = 240, bl_base_points = 40\<rparr>,
      \<lparr>bl_level_id = 5, bl_title = ''Level 5 - Expert'',
       bl_description = Some ''Longest and most challenging exercise.'',
       bl_duration_seconds = 300, bl_base_points = 50\<rparr>]"

text \<open>
  \<open>INSERT OR IGNORE INTO breathing_levels ... VALUES ...\<close>: a row whose \<open>level_id\<close> is
  already in the table is skipped, the others are inserted under their key.
\<close>

definition insert_or_ignore_row ::
  "breathing_level_row \<Rightarrow> breathing_level_row list \<Rightarrow> breathing_level_row list" where
  "insert_or_ignore_row r rows =
     (if bl_level_id r \<in> set (map bl_level_id rows) then rows
      else insort_key bl_level_id r rows)"

definition insert_or_ignore_breathing_levels :: "bool \<Rightarrow> db \<Rightarrow> error + db \<times> unit" where
  "insert_or_ignore_breathing_levels fk d =
     (case breathing_levels d of
        None \<Rightarrow> Inl OperationalError
      | Some rows \<Rightarrow>
          Inr (d\<lparr>breathing_levels := Some (fold insert_or_ignore_row seed_levels rows)\<rparr>, ()))"

definition SCHEMA_SQL :: "script_statement list" where
  "SCHEMA_SQL =
     [pragma_foreign_keys_on,
      autocommit create_users,
      autocommit create_mood_sessions,
      autocommit create_breathing_levels,
      autocommit insert_or_ignore_breathing_levels,
      autocommit create_breathing_sessions,
      autocommit create_user_stats]"

fun executescript :: "script_statement list \<Rightarrow> connection \<Rightarrow> (error + unit) \<times> connection" where
  "executescript [] c = (Inr (), c)"
| "executescript (s # ss) c =
     (case s c of Inl e \<Rightarrow> (Inl e, c) | Inr c' \<Rightarrow> executescript ss c')"

subsection \<open>The functions\<close>

text \<open>
  Each function returns what the Python function returns or raises, and the file as it
  is afterwards. An exception leaves the function before \<open>conn.commit()\<close>.
\<close>

definition init_db :: "db \<Rightarrow> (error + unit) \<times> db" where
  "init_db d =
     (let conn = get_connection d
      in case executescript SCHEMA_SQL conn of
           (Inl e, conn') \<Rightarrow> (Inl e, close conn')
         | (Inr _, conn') \<Rightarrow> (Inr (), close (commit conn')))"

definition create_user :: "timestamp \<Rightarrow> string \<Rightarrow> string \<Rightarrow> string \<Rightarrow> db \<Rightarrow> (error + int) \<times> db" where
  "create_user now name email password_hash d =
     (let conn = get_connection d
      in case execute (insert_users now name email password_hash) conn of
           Inl e \<Rightarrow> (Inl e, close conn)
         | Inr (conn1, user_id) \<Rightarrow>
             (case execute (insert_user_stats user_id) conn1 of
                Inl e \<Rightarrow> (Inl e, close conn1)
              | Inr (conn2, _) \<Rightarrow> (Inr user_id, close (commit conn2))))"

definition add_mood_session ::
  "timestamp \<Rightarrow> int \<Rightarrow> int \<Rightarrow> string option \<Rightarrow> string option \<Rightarrow> string option \<Rightarrow> int \<Rightarrow>
   db \<Rightarrow> (error + int) \<times> db" where
  "add_mood_session now user_id stress_level q1 q2 q3 points_earned d =
     (let conn = get_connection d
      in case execute (insert_mood_sessions now user_id stress_level q1 q2 q3 points_earned) conn of
           Inl e \<Rightarrow> (Inl e, close conn)
         | Inr (conn1, sid) \<Rightarrow> (Inr sid, close (commit conn1)))"

definition add_breathing_session ::
  "timestamp \<Rightarrow> int \<Rightarrow> int \<Rightarrow> int option \<Rightarrow> int \<Rightarrow> db \<Rightarrow> (error + int) \<times> db" where
  "add_breathing_session now user_id level_id session_id points_earned d =
     (let conn = get_connection d
      in case execute (insert_breathing_sessions now user_id session_id level_id points_earned) conn of
           Inl e \<Rightarrow> (Inl e, close conn)
         | Inr (conn1, bid) \<Rightarrow> (Inr bid, close (commit conn1)))"

definition update_user_stats :: "timestamp \<Rightarrow> int \<Rightarrow> int \<Rightarrow> db \<Rightarrow> (error + unit) \<times> db" where
  "update_user_stats now user_id added_points d =
     (let conn = get_connection d
      in case execute (update_user_stats_set now added_points user_id) conn of
           Inl e \<Rightarrow> (Inl e, close conn)
         | Inr (conn1, _) \<Rightarrow> (Inr (), close (commit conn1)))"

text \<open>
  The \<open>delete_\<close> functions print their acknowledgement after \<open>conn.close()\<close>, so only when
  nothing was raised; they return nothing.
\<close>

definition delete_user :: "int \<Rightarrow> db \<Rightarrow> (error + unit) \<times> db" where
  "delete_user user_id d =
     (let conn = get_connection d
      in case execute (delete_users user_id) conn of
           Inl e \<Rightarrow> (Inl e, close conn)
         | Inr (conn1, _) \<Rightarrow> (Inr (), close (commit conn1)))"

definition delete_mood_session :: "int \<Rightarrow> db \<Rightarrow> (error + unit) \<times> db" where
  "delete_mood_session session_id d =
     (let conn = get_connection d
      in case execute (delete_mood_sessions session_id) conn of
           Inl e \<Rightarrow> (Inl e, close conn)
         | Inr (conn1, _) \<Rightarrow> (Inr (), close (commit conn1)))"

definition delete_breathing_session :: "int \<Rightarrow> db \<Rightarrow> (error + unit) \<times> db" where
  "delete_breathing_session breathing_session_id d =
     (let conn = get_connection d
      in case execute (delete_breathing_sessions breathing_session_id) conn of
           Inl e \<Rightarrow> (Inl e, close conn)
         | Inr (conn1, _) \<Rightarrow> (Inr (), close (commit conn1)))"

definition delete_breathing_level :: "int \<Rightarrow> db \<Rightarrow> (error + unit) \<times> db" where
  "delete_breathing_level level_id d =
     (let conn = get_connection d
      in case execute (delete_breathing_levels level_id) conn of
           Inl e \<Rightarrow> (Inl e, close conn)
         | Inr (conn1, _) \<Rightarrow> (Inr (), close (commit conn1)))"

definition delete_user_stats :: "int \<Rightarrow> db \<Rightarrow> (error + unit) \<times> db" where
  "delete_user_stats user_id d =
     (let conn = get_connection d
      in case execute (delete_user_stats_rows user_id) conn of
           Inl e \<Rightarrow> (Inl e, close conn)
         | Inr (conn1, _) \<Rightarrow> (Inr (), close (commit conn1)))"

subsection \<open>Reading the store\<close>

text \<open>
  What the properties below look at: the row that
  \<open>SELECT * FROM user_stats WHERE user_id = ?\<close> returns, and the keys a table holds (none
  when the table does not exist).
\<close>

definition stats_of :: "db \<Rightarrow> int \<Rightarrow> user_stats_row option" where
  "stats_of d uid =
     (case user_stats d of None \<Rightarrow> None | Some rows \<Rightarrow> find (\<lambda>r. us_user_id r = uid) rows)"

definition user_ids :: "db \<Rightarrow> int list" where
  "user_ids d = (case users d of None \<Rightarrow> [] | Some rows \<Rightarrow> map u_user_id rows)"

definition user_emails :: "db \<Rightarrow> string list" where
  "user_emails d = (case users d of None \<Rightarrow> [] | Some rows \<Rightarrow> map u_email rows)"

definition stats_ids :: "db \<Rightarrow> int list" where
  "stats_ids d = (case user_stats d of None \<Rightarrow> [] | Some rows \<Rightarrow> map us_user_id rows)"

definition mood_session_owners :: "db \<Rightarrow> int list" where
  "mood_session_owners d = (case mood_sessions d of None \<Rightarrow> [] | Some rows \<Rightarrow> map ms_user_id rows)"

definition breathing_session_owners :: "db \<Rightarrow> int list" where
  "breathing_session_owners d =
     (case breathing_sessions d of None \<Rightarrow> [] | Some rows \<Rightarrow> map bs_user_id rows)"

definition breathing_session_levels :: "db \<Rightarrow> int list" where
  "breathing_session_levels d =
     (case breathing_sessions d of None \<Rightarrow> [] | Some rows \<Rightarrow> map bs_level_id rows)"

definition level_ids :: "db \<Rightarrow> int list" where
  "level_ids d = (case breathing_levels d of None \<Rightarrow> [] | Some rows \<Rightarrow> map bl_level_id rows)"

subsection \<open>Sequences of calls and what they maintain\<close>

text \<open>A call of one of the functions, with its arguments and the clock where it reads it.\<close>

datatype call =
    Init_db
  | Create_user timestamp string string string
  | Add_mood_session timestamp int int "string option" "string option" "string option" int
  | Add_breathing_session timestamp int int "int option" int
  | Update_user_stats timestamp int int
  | Delete_user int
  | Delete_mood_session int
  | Delete_breathing_session int
  | Delete_breathing_level int
  | Delete_user_stats int

fun call_db :: "call \<Rightarrow> db \<Rightarrow> db" where
  "call_db Init_db d = snd (init_db d)"
| "call_db (Create_user now name email password_hash) d =
     snd (create_user now name email password_hash d)"
| "call_db (Add_mood_session now user_id stress_level q1 q2 q3 points_earned) d =
     snd (add_mood_session now user_id stress_level q1 q2 q3 points_earned d)"
| "call_db (Add_breathing_session now user_id level_id session_id points_earned) d =
     snd (add_breathing_session now user_id level_id session_id points_earned d)"
| "call_db (Update_user_stats now user_id added_points) d =
     snd (update_user_stats now user_id added_points d)"
| "call_db (Delete_user user_id) d = snd (delete_user user_id d)"
| "call_db (Delete_mood_session session_id) d = snd (delete_mood_session session_id d)"
| "call_db (Delete_breathing_session breathing_session_id) d =
     snd (delete_breathing_session breathing_session_id d)"
| "call_db (Delete_breathing_level level_id) d = snd (delete_breathing_level level_id d)"
| "call_db (Delete_user_stats user_id) d = snd (delete_user_stats user_id d)"

text \<open>
  The file after a sequence of calls on a new, empty file. Whatever a call raises, the
  next call finds the file as the failed one left it.
\<close>

definition run_calls :: "call list \<Rightarrow> db" where
  "run_calls cs = fold call_db cs empty_db"

text \<open>
  Three facts that no function of the program breaks: the key of every \<open>users\<close> and
  \<open>user_stats\<close> row has been handed out by the \<open>AUTOINCREMENT\<close> counter of \<open>users\<close>; the
  catalogue holds seed rows only, in key order, each at most once; and the script creates
  the tables together.
\<close>

definition keys_allocated :: "db \<Rightarrow> bool" where
  "keys_allocated d =
     ((\<forall>k \<in> set (user_ids d). k \<le> seq_users d) \<and> (\<forall>k \<in> set (stats_ids d). k \<le> seq_users d))"

definition catalogue_seeded :: "db \<Rightarrow> bool" where
  "catalogue_seeded d =
     (case breathing_levels d of
        None \<Rightarrow> True
      | Some rows \<Rightarrow>
          set rows \<subseteq> set seed_levels \<and> sorted (map bl_level_id rows)
          \<and> distinct (map bl_level_id rows))"

definition initialised :: "db \<Rightarrow> bool" where
  "initialised d =
     (users d \<noteq> None \<and> mood_sessions d \<noteq> None \<and> breathing_levels d \<noteq> None
      \<and> breathing_sessions d \<noteq> None \<and> user_stats d \<noteq> None)"

definition db_invariant :: "db \<Rightarrow> bool" where
  "db_invariant d = (keys_allocated d \<and> catalogue_seeded d)"

subsection \<open>The run of the script's entry point\<close>

text \<open>
  The calls of the \<open>__main__\<close> block, with the clock at second 1000: the file after
  \<open>init_db\<close>, after \<open>create_user\<close>, and after the two sessions have been added.
\<close>

definition initial_db :: db where
  "initial_db = run_calls [Init_db]"

definition new_user_db :: db where
  "new_user_db =
     run_calls [Init_db, Create_user 1000 ''Moamen User'' ''moamen@example.com'' ''hash123'']"

definition demo_db :: db where
  "demo_db =
     run_calls [Init_db,
       Create_user 1000 ''Moamen User'' ''moamen@example.com'' ''hash123'',
       Add_mood_session 1000 1 4 (Some ''tired'') (Some ''not good'') (Some ''need rest'') 5,
       Add_breathing_session 1000 1 3 (Some 1) 30]"

text \<open>
  A file in which the streak of user 1 is the largest 64-bit integer, last active on day 0.
\<close>

definition full_streak_db :: db where
  "full_streak_db =
     new_user_db\<lparr>user_stats := Some
       [\<lparr>us_user_id = 1, us_total_points = INTEGER 0,
         us_current_streak_days = INTEGER 9223372036854775807,
         us_last_activity_date = Some 0\<rparr>]\<rparr>"

section \<open>Properties\<close>

subsection \<open>What a function does to the file\<close>

text \<open>
  Each function, with the connection, the commit and the close worked out: the statements
  run with foreign keys not enforced, and the file changes only when every statement of
  the function has succeeded.
\<close>

lemma init_db_unfold:
  "init_db d = (Inr (), d\<lparr>users := create_table_if_not_exists (users d),
       mood_sessions := create_table_if_not_exists (mood_sessions d),
       breathing_levels := Some (fold insert_or_ignore_row seed_levels
          (case breathing_levels d of None \<Rightarrow> [] | Some rows \<Rightarrow> rows)),
       breathing_sessions := create_table_if_not_exists (breathing_sessions d),
       user_stats := create_table_if_not_exists (user_stats d)\<rparr>)"
  by (simp add: init_db_def SCHEMA_SQL_def get_connection_def pragma_foreign_keys_on_def
      autocommit_def execute_def commit_def close_def create_users_def create_mood_sessions_def
      create_breathing_levels_def create_breathing_sessions_def create_user_stats_def
      insert_or_ignore_breathing_levels_def create_table_if_not_exists_def
      split: option.splits)

lemma create_user_unfold:
  "create_user now name email password_hash d =
     (case insert_users now name email password_hash False d of
        Inl e \<Rightarrow> (Inl e, d)
      | Inr (d1, user_id) \<Rightarrow>
          (case insert_user_stats user_id False d1 of
             Inl e \<Rightarrow> (Inl e, d)
           | Inr (d2, _) \<Rightarrow> (Inr user_id, d2)))"
  by (simp add: create_user_def get_connection_def execute_def commit_def close_def
      split: sum.splits prod.splits)

lemma add_mood_session_unfold:
  "add_mood_session now user_id stress_level q1 q2 q3 points_earned d =
     (case insert_mood_sessions now user_id stress_level q1 q2 q3 points_earned False d of
        Inl e \<Rightarrow> (Inl e, d)
      | Inr (d1, sid) \<Rightarrow> (Inr sid, d1))"
  by (simp add: add_mood_session_def get_connection_def execute_def commit_def close_def
      split: sum.splits prod.splits)

lemma add_breathing_session_unfold:
  "add_breathing_session now user_id level_id session_id points_earned d =
     (case insert_breathing_sessions now user_id session_id level_id points_earned False d of
        Inl e \<Rightarrow> (Inl e, d)
      | Inr (d1, bid) \<Rightarrow> (Inr bid, d1))"
  by (simp add: add_breathing_session_def get_connection_def execute_def commit_def close_def
      split: sum.splits prod.splits)

lemma update_user_stats_unfold:
  "update_user_stats now user_id added_points d =
     (case update_user_stats_set now added_points user_id False d of
        Inl e \<Rightarrow> (Inl e, d)
      | Inr (d1, _) \<Rightarrow> (Inr (), d1))"
  by (simp add: update_user_stats_def get_connection_def execute_def commit_def close_def
      split: sum.splits prod.splits)

lemma delete_user_unfold:
  "delete_user user_id d =
     (case delete_users user_id False d of
        Inl e \<Rightarrow> (Inl e, d)
      | Inr (d1, _) \<Rightarrow> (Inr (), d1))"
  by (simp add: delete_user_def get_connection_def execute_def commit_def close_def
      split: sum.splits prod.splits)

lemma delete_mood_session_unfold:
  "delete_mood_session session_id d =
     (case delete_mood_sessions session_id False d of
        Inl e \<Rightarrow> (Inl e, d)
      | Inr (d1, _) \<Rightarrow> (Inr (), d1))"
  by (simp add: delete_mood_session_def get_connection_def execute_def commit_def close_def
      split: sum.splits prod.splits)

lemma delete_breathing_session_unfold:
  "delete_breathing_session breathing_session_id d =
     (case delete_breathing_sessions breathing_session_id False d of
        Inl e \<Rightarrow> (Inl e, d)
      | Inr (d1, _) \<Rightarrow> (Inr (), d1))"
  by (simp add: delete_breathing_session_def get_connection_def execute_def commit_def close_def
      split: sum.splits prod.splits)

lemma delete_breathing_level_unfold:
  "delete_breathing_level level_id d =
     (case delete_breathing_levels level_id False d of
        Inl e \<Rightarrow> (Inl e, d)
      | Inr (d1, _) \<Rightarrow> (Inr (), d1))"
  by (simp add: delete_breathing_level_def get_connection_def execute_def commit_def close_def
      split: sum.splits prod.splits)

lemma delete_user_stats_unfold:
  "delete_user_stats user_id d =
     (case delete_user_stats_rows user_id False d of
        Inl e \<Rightarrow> (Inl e, d)
      | Inr (d1, _) \<Rightarrow> (Inr (), d1))"
  by (simp add: delete_user_stats_def get_connection_def execute_def commit_def close_def
      split: sum.splits prod.splits)

subsection \<open>The streak rule\<close>

lemma DATE_yesterday: "DATE now (- 1) = DATE now 0 - 1"
  by (simp add: DATE_def)

lemma find_map_same:
  assumes "\<And>r. us_user_id (f r) = us_user_id r"
  shows "find (\<lambda>r. us_user_id r = uid) (map (\<lambda>r. if us_user_id r = uid then f r else r) rows)
         = map_option f (find (\<lambda>r. us_user_id r = uid) rows)"
  using assms by (induction rows) auto

lemma find_map_other:
  assumes "\<And>r. us_user_id (f r) = us_user_id r" and "u \<noteq> uid"
  shows "find (\<lambda>r. us_user_id r = u) (map (\<lambda>r. if us_user_id r = uid then f r else r) rows)
         = find (\<lambda>r. us_user_id r = u) rows"
  using assms by (induction rows) auto

lemma update_user_stats_row_id [simp]:
  "us_user_id (update_user_stats_row now p r) = us_user_id r"
  by (simp add: update_user_stats_row_def)

lemma update_user_stats_overflow:
  "user_stats d \<noteq> None \<Longrightarrow> \<not> int64 pts \<or> \<not> int64 uid \<Longrightarrow>
   update_user_stats now uid pts d = (Inl OverflowError, d)"
  by (auto simp add: update_user_stats_unfold update_user_stats_set_def bind_def)

lemma stats_of_update:
  "int64 uid \<Longrightarrow> int64 pts \<Longrightarrow>
   stats_of (snd (update_user_stats now uid pts d)) uid
     = map_option (update_user_stats_row now pts) (stats_of d uid)"
  by (simp add: update_user_stats_unfold update_user_stats_set_def bind_def stats_of_def
      find_map_same split: option.splits)

lemma stats_of_update_other:
  "u \<noteq> uid \<Longrightarrow> stats_of (snd (update_user_stats now uid pts d)) u = stats_of d u"
  by (simp add: update_user_stats_unfold update_user_stats_set_def stats_of_def find_map_other
      split: option.splits)

lemma update_ok:
  "user_stats d \<noteq> None \<Longrightarrow> int64 uid \<Longrightarrow> int64 pts \<Longrightarrow>
   fst (update_user_stats now uid pts d) = Inr ()"
  by (auto simp add: update_user_stats_unfold update_user_stats_set_def bind_def)

lemma stats_of_Some_table: "stats_of d uid = Some r \<Longrightarrow> user_stats d \<noteq> None"
  by (auto simp: stats_of_def split: option.splits)

lemma stats_of_Some_id: "stats_of d uid = Some r \<Longrightarrow> us_user_id r = uid"
  by (auto simp: stats_of_def split: option.splits dest: find_Some_iff[THEN iffD1])

lemma sql_add_fits: "int64 (a + b) \<Longrightarrow> sql_add (INTEGER a) b = INTEGER (a + b)"
  by (simp add: sql_add_def)

text \<open>
  C1, as the code has it. When the user has a stats row, the user id and the added points
  fit in 64 bits, and the stored total is an integer whose sum with the added points
  fits in 64 bits too, \<open>update_user_stats\<close> succeeds and the row then holds the old total
  plus the added points and today's date; the streak is the old one plus 1 when the old
  date was yesterday (for an integer streak below the largest 64-bit value), the old one
  when it was today, and 1 otherwise (no date, an older date, or any other date). The old
  date is the one read, not the one written. A second update on the same day, under the
  same conditions, adds its points and keeps the streak of the first.
\<close>

theorem update_user_stats_streak:
  assumes "stats_of d uid = Some r"
    and "int64 uid" and "int64 pts"
    and "us_total_points r = INTEGER t" and "int64 (t + pts)"
  shows "fst (update_user_stats now uid pts d) = Inr () \<and>
    (\<exists>r'. stats_of (snd (update_user_stats now uid pts d)) uid = Some r' \<and>
       us_user_id r' = uid \<and>
       us_total_points r' = INTEGER (t + pts) \<and>
       us_last_activity_date r' = Some (DATE now 0) \<and>
       (us_last_activity_date r = Some (DATE now 0 - 1) \<longrightarrow>
          (\<forall>s. us_current_streak_days r = INTEGER s \<longrightarrow> int64 (s + 1) \<longrightarrow>
             us_current_streak_days r' = INTEGER (s + 1))) \<and>
       (us_last_activity_date r = Some (DATE now 0) \<longrightarrow>
          us_current_streak_days r' = us_current_streak_days r) \<and>
       (us_last_activity_date r \<noteq> Some (DATE now 0 - 1) \<and>
        us_last_activity_date r \<noteq> Some (DATE now 0) \<longrightarrow>
          us_current_streak_days r' = INTEGER 1) \<and>
       (\<forall>now' pts'. DATE now' 0 = DATE now 0 \<longrightarrow> int64 pts' \<longrightarrow> int64 (t + pts + pts') \<longrightarrow>
          (\<exists>r''. stats_of (snd (update_user_stats now' uid pts'
                       (snd (update_user_stats now uid pts d)))) uid = Some r'' \<and>
             us_total_points r'' = INTEGER (t + pts + pts') \<and>
             us_current_streak_days r'' = us_current_streak_days r' \<and>
             us_last_activity_date r'' = Some (DATE now 0))))"
proof -
  let ?d' = "snd (update_user_stats now uid pts d)"
  let ?r' = "update_user_stats_row now pts r"
  have ok: "fst (update_user_stats now uid pts d) = Inr ()"
    using assms(1-3) by (simp add: update_ok stats_of_Some_table)
  have id: "us_user_id r = uid"
    using assms(1) by (rule stats_of_Some_id)
  have first: "stats_of ?d' uid = Some ?r'"
    using assms(1-3) by (simp add: stats_of_update)
  have total: "us_total_points ?r' = INTEGER (t + pts)"
    using assms(4,5) by (simp add: update_user_stats_row_def sql_add_fits)
  have date: "us_last_activity_date ?r' = Some (DATE now 0)"
    by (simp add: update_user_stats_row_def)
  have streak: "us_current_streak_days ?r' = streak_case now r"
    by (simp add: update_user_stats_row_def)
  have second: "stats_of (snd (update_user_stats now' uid pts' ?d')) uid
      = Some (update_user_stats_row now' pts' ?r')" if "int64 pts'" for now' pts'
    using that assms(2) by (simp only: stats_of_update [of uid pts' now' ?d'] first option.map)
  have same_day: "us_current_streak_days (update_user_stats_row now' pts' ?r')
      = us_current_streak_days ?r'" if "DATE now' 0 = DATE now 0" for now' pts'
    using that by (simp add: update_user_stats_row_def streak_case_def DATE_yesterday)
  have second_total: "us_total_points (update_user_stats_row now' pts' ?r')
      = INTEGER (t + pts + pts')" if "int64 (t + pts + pts')" for now' pts'
    using that total by (simp add: update_user_stats_row_def sql_add_fits)
  have second_date: "us_last_activity_date (update_user_stats_row now' pts' ?r')
      = Some (DATE now' 0)" for now' pts'
    by (simp add: update_user_stats_row_def)
  have again: "\<exists>r''. stats_of (snd (update_user_stats now' uid pts' ?d')) uid = Some r'' \<and>
      us_total_points r'' = INTEGER (t + pts + pts') \<and>
      us_current_streak_days r'' = us_current_streak_days ?r' \<and>
      us_last_activity_date r'' = Some (DATE now 0)"
    if "DATE now' 0 = DATE now 0" "int64 pts'" "int64 (t + pts + pts')" for now' pts'
    using second [OF that(2)] same_day [OF that(1)] second_total [OF that(3)] second_date that(1)
    by simp
  have cases: "(us_last_activity_date r = Some (DATE now 0 - 1) \<longrightarrow>
          (\<forall>s. us_current_streak_days r = INTEGER s \<longrightarrow> int64 (s + 1) \<longrightarrow>
             streak_case now r = INTEGER (s + 1))) \<and>
       (us_last_activity_date r = Some (DATE now 0) \<longrightarrow>
          streak_case now r = us_current_streak_days r) \<and>
       (us_last_activity_date r \<noteq> Some (DATE now 0 - 1) \<and>
        us_last_activity_date r \<noteq> Some (DATE now 0) \<longrightarrow>
          streak_case now r = INTEGER 1)"
    by (simp add: streak_case_def DATE_yesterday sql_add_fits)
  from cases have cases': "(us_last_activity_date r = Some (DATE now 0 - 1) \<longrightarrow>
          (\<forall>s. us_current_streak_days r = INTEGER s \<longrightarrow> int64 (s + 1) \<longrightarrow>
             us_current_streak_days ?r' = INTEGER (s + 1))) \<and>
       (us_last_activity_date r = Some (DATE now 0) \<longrightarrow>
          us_current_streak_days ?r' = us_current_streak_days r) \<and>
       (us_last_activity_date r \<noteq> Some (DATE now 0 - 1) \<and>
        us_last_activity_date r \<noteq> Some (DATE now 0) \<longrightarrow>
          us_current_streak_days ?r' = INTEGER 1)"
    by (simp only: streak)
  have id': "us_user_id ?r' = uid"
    using id by simp
  have again': "\<forall>now' pts'. DATE now' 0 = DATE now 0 \<longrightarrow> int64 pts' \<longrightarrow>
      int64 (t + pts + pts') \<longrightarrow>
      (\<exists>r''. stats_of (snd (update_user_stats now' uid pts' ?d')) uid = Some r'' \<and>
         us_total_points r'' = INTEGER (t + pts + pts') \<and>
         us_current_streak_days r'' = us_current_streak_days ?r' \<and>
         us_last_activity_date r'' = Some (DATE now 0))"
    using again by blast
  from first id' total date cases' again'
  have "\<exists>r'. stats_of ?d' uid = Some r' \<and>
       us_user_id r' = uid \<and>
       us_total_points r' = INTEGER (t + pts) \<and>
       us_last_activity_date r' = Some (DATE now 0) \<and>
       (us_last_activity_date r = Some (DATE now 0 - 1) \<longrightarrow>
          (\<forall>s. us_current_streak_days r = INTEGER s \<longrightarrow> int64 (s + 1) \<longrightarrow>
             us_current_streak_days r' = INTEGER (s + 1))) \<and>
       (us_last_activity_date r = Some (DATE now 0) \<longrightarrow>
          us_current_streak_days r' = us_current_streak_days r) \<and>
       (us_last_activity_date r \<noteq> Some (DATE now 0 - 1) \<and>
        us_last_activity_date r \<noteq> Some (DATE now 0) \<longrightarrow>
          us_current_streak_days r' = INTEGER 1) \<and>
       (\<forall>now' pts'. DATE now' 0 = DATE now 0 \<longrightarrow> int64 pts' \<longrightarrow> int64 (t + pts + pts') \<longrightarrow>
          (\<exists>r''. stats_of (snd (update_user_stats now' uid pts' ?d')) uid = Some r'' \<and>
             us_total_points r'' = INTEGER (t + pts + pts') \<and>
             us_current_streak_days r'' = us_current_streak_days r' \<and>
             us_last_activity_date r'' = Some (DATE now 0)))"
    by (intro exI [of _ ?r'] conjI) blast+
  with ok show ?thesis
    by (rule conjI)
qed

theorem update_user_stats_streak_witness:
  "stats_of new_user_db 1 = Some \<lparr>us_user_id = 1, us_total_points = INTEGER 0,
       us_current_streak_days = INTEGER 0, us_last_activity_date = None\<rparr> \<and>
   fst (update_user_stats 1000 1 10 new_user_db) = Inr () \<and>
   (\<exists>r''. stats_of (snd (update_user_stats 2000 1 5
               (snd (update_user_stats 1000 1 10 new_user_db)))) 1 = Some r'' \<and>
      us_total_points r'' = INTEGER 15 \<and> us_current_streak_days r'' = INTEGER 1)"
proof -
  let ?r = "\<lparr>us_user_id = 1, us_total_points = INTEGER 0,
       us_current_streak_days = INTEGER 0, us_last_activity_date = None\<rparr>"
  have h: "stats_of new_user_db 1 = Some ?r"
    by code_simp
  have b: "int64 1" "int64 10" "int64 5" "int64 (0 + 10)" "int64 (0 + 10 + 5)"
    by (simp_all add: int64_def)
  have t: "us_total_points ?r = INTEGER 0"
    by simp
  have same: "DATE 2000 0 = DATE 1000 0"
    by (simp add: DATE_def)
  from update_user_stats_streak [OF h b(1) b(2) t b(4), of 1000] same h b(3) b(5) show ?thesis
    by fastforce
qed

text \<open>
  Where the claim as it stands fails. With 2^63 points the parameter cannot be bound:
  \<open>OverflowError\<close>, and the row is not updated. With the total at 2^63 - 1 points, adding
  2 stores the real 2^63, not 2^63 + 1. With the streak at 2^63 - 1 and the last
  activity the day before, the streak becomes the real 2^63 and, on the next day again,
  stays there instead of growing by 1.
\<close>

theorem update_user_stats_streak_counterexample:
  "stats_of new_user_db 1 = Some \<lparr>us_user_id = 1, us_total_points = INTEGER 0,
       us_current_streak_days = INTEGER 0, us_last_activity_date = None\<rparr> \<and>
   update_user_stats 1000 1 9223372036854775808 new_user_db = (Inl OverflowError, new_user_db) \<and>
   stats_of (snd (update_user_stats 1000 1 9223372036854775807 new_user_db)) 1
     = Some \<lparr>us_user_id = 1, us_total_points = INTEGER 9223372036854775807,
         us_current_streak_days = INTEGER 1, us_last_activity_date = Some 0\<rparr> \<and>
   stats_of (snd (update_user_stats 2000 1 2
       (snd (update_user_stats 1000 1 9223372036854775807 new_user_db)))) 1
     = Some \<lparr>us_user_id = 1, us_total_points = REAL 9223372036854775808,
         us_current_streak_days = INTEGER 1, us_last_activity_date = Some 0\<rparr> \<and>
   stats_of (snd (update_user_stats 86400 1 0 full_streak_db)) 1
     = Some \<lparr>us_user_id = 1, us_total_points = INTEGER 0,
         us_current_streak_days = REAL 9223372036854775808,
         us_last_activity_date = Some 1\<rparr> \<and>
   stats_of (snd (update_user_stats 172800 1 0
       (snd (update_user_stats 86400 1 0 full_streak_db)))) 1
     = Some \<lparr>us_user_id = 1, us_total_points = INTEGER 0,
         us_current_streak_days = REAL 9223372036854775808,
         us_last_activity_date = Some 2\<rparr>"
  by code_simp

lemma map_no_match:
  "uid \<notin> set (map us_user_id rows) \<Longrightarrow>
   map (\<lambda>r. if us_user_id r = uid then f r else r) rows = rows"
  by (induction rows) auto

text \<open>
  C8, as the code has it. When the \<open>user_stats\<close> table holds no row for the user,
  \<open>update_user_stats\<close> leaves the file exactly what it was: no row is changed and none is
  created. It raises nothing when the user id and the added points fit in 64 bits, and
  \<open>OverflowError\<close> when one of them does not.
\<close>

theorem update_user_stats_no_row:
  assumes "user_stats d \<noteq> None" and "uid \<notin> set (stats_ids d)"
  shows "snd (update_user_stats now uid pts d) = d \<and>
    (int64 uid \<and> int64 pts \<longrightarrow> update_user_stats now uid pts d = (Inr (), d)) \<and>
    (\<not> (int64 uid \<and> int64 pts) \<longrightarrow> update_user_stats now uid pts d = (Inl OverflowError, d))"
  using assms
  by (auto simp add: update_user_stats_unfold update_user_stats_set_def bind_def stats_ids_def
      map_no_match)

theorem update_user_stats_no_row_witness:
  "user_stats new_user_db \<noteq> None \<and> 2 \<notin> set (stats_ids new_user_db) \<and> int64 2 \<and> int64 30 \<and>
   update_user_stats 1000 2 30 new_user_db = (Inr (), new_user_db)"
proof -
  have h1: "user_stats new_user_db \<noteq> None"
    by code_simp
  have h2: "2 \<notin> set (stats_ids new_user_db)"
    by code_simp
  have h3: "int64 2" and h4: "int64 30"
    by (simp_all add: int64_def)
  from update_user_stats_no_row [OF h1 h2, of 1000 30] h1 h2 h3 h4 show ?thesis
    by simp
qed

text \<open>
  Where the claim as it stands fails: no row belongs to user 2, and with 2^63 points, or
  for the user id 2^63, the call raises \<open>OverflowError\<close> (the file is what it was).
\<close>

theorem update_user_stats_no_row_counterexample:
  "user_stats new_user_db \<noteq> None \<and> 2 \<notin> set (stats_ids new_user_db) \<and>
   9223372036854775808 \<notin> set (stats_ids new_user_db) \<and>
   update_user_stats 1000 2 9223372036854775808 new_user_db = (Inl OverflowError, new_user_db) \<and>
   update_user_stats 1000 9223372036854775808 30 new_user_db = (Inl OverflowError, new_user_db)"
  by code_simp

subsection \<open>Creating users\<close>

lemma max_rowid_ge: "k \<in> set ids \<Longrightarrow> k \<le> max_rowid ids"
  by (induction ids) (auto simp add: max_rowid_def)

lemma next_rowid_fresh: "next_rowid seq ids \<notin> set ids"
  using max_rowid_ge [of "next_rowid seq ids" ids] by (auto simp add: next_rowid_def)

lemma next_rowid_fresh_row: "x \<in> set rows \<Longrightarrow> next_rowid seq (map key rows) \<noteq> key x"
  using next_rowid_fresh [of seq "map key rows"] by auto

lemma next_rowid_above_seq: "seq < next_rowid seq ids"
  by (simp add: next_rowid_def)

lemma find_insort_key:
  "us_user_id x = uid \<Longrightarrow> uid \<notin> set (map us_user_id rows) \<Longrightarrow>
   find (\<lambda>r. us_user_id r = uid) (insort_key us_user_id x rows) = Some x"
  by (induction rows) auto

lemma create_user_failure:
  "create_user now name email password_hash d = (Inl e, d') \<Longrightarrow> d' = d"
  by (auto simp add: create_user_unfold split: sum.splits prod.splits)

lemma create_user_success:
  assumes "create_user now name email password_hash d = (Inr uid, d')"
  shows "\<exists>us ss. users d = Some us \<and> user_stats d = Some ss \<and>
     email \<notin> set (map u_email us) \<and>
     uid = next_rowid (seq_users d) (map u_user_id us) \<and>
     uid \<notin> set (map us_user_id ss) \<and>
     d' = d\<lparr>users := Some (us @ [\<lparr>u_user_id = uid, u_name = name, u_email = email,
                u_password_hash = password_hash, u_created_at = Some now\<rparr>]),
             seq_users := uid,
             user_stats := Some (insort_key us_user_id
                \<lparr>us_user_id = uid, us_total_points = INTEGER 0,
                 us_current_streak_days = INTEGER 0, us_last_activity_date = None\<rparr> ss)\<rparr>"
  using assms
  by (auto simp add: create_user_unfold insert_users_def insert_user_stats_def Let_def
      fk_no_table_def fk_violated_def split: option.splits if_splits)

text \<open>
  C6. \<open>create_user\<close> with the email of a user that is already in \<open>users\<close> raises the
  integrity error of the \<open>UNIQUE\<close> constraint, and the file is exactly what it was, so the
  first user's row and stats row are untouched.
\<close>

theorem create_user_duplicate_email:
  assumes "users d = Some rows" and "r \<in> set rows" and "u_email r = email"
  shows "create_user now name email password_hash d = (Inl (IntegrityError UNIQUE), d)"
  using assms by (auto simp add: create_user_unfold insert_users_def)

theorem create_user_duplicate_email_witness:
  "create_user 2000 ''Other'' ''moamen@example.com'' ''hash456'' new_user_db
     = (Inl (IntegrityError UNIQUE), new_user_db)"
proof -
  let ?r = "\<lparr>u_user_id = 1, u_name = ''Moamen User'', u_email = ''moamen@example.com'',
             u_password_hash = ''hash123'', u_created_at = Some 1000\<rparr>"
  have h1: "users new_user_db = Some [?r]"
    by code_simp
  have h2: "?r \<in> set [?r]"
    by simp
  have h3: "u_email ?r = ''moamen@example.com''"
    by simp
  from create_user_duplicate_email [OF h1 h2 h3] show ?thesis
    by simp
qed

text \<open>
  C9. \<open>create_user\<close> is all or nothing. When it raises, at either of its two inserts, the
  file is exactly what it was. When it returns a key, that key is new to both tables and
  both tables have gained it: the \<open>users\<close> row and the \<open>user_stats\<close> row are committed
  together.
\<close>

theorem create_user_atomic:
  "(\<forall>e d'. create_user now name email password_hash d = (Inl e, d') \<longrightarrow> d' = d) \<and>
   (\<forall>uid d'. create_user now name email password_hash d = (Inr uid, d') \<longrightarrow>
      uid \<notin> set (user_ids d) \<and> uid \<notin> set (stats_ids d) \<and>
      set (user_ids d') = insert uid (set (user_ids d)) \<and>
      set (stats_ids d') = insert uid (set (stats_ids d)))"
  by (auto simp add: create_user_unfold insert_users_def insert_user_stats_def Let_def
      fk_no_table_def fk_violated_def user_ids_def stats_ids_def set_insort_key
      split: option.splits if_splits dest: next_rowid_fresh_row)

theorem create_user_atomic_witness:
  "create_user 1000 ''Moamen User'' ''moamen@example.com'' ''hash123'' initial_db
     = (Inr 1, new_user_db) \<and>
   1 \<notin> set (user_ids initial_db) \<and> 1 \<notin> set (stats_ids initial_db) \<and>
   set (user_ids new_user_db) = insert 1 (set (user_ids initial_db)) \<and>
   set (stats_ids new_user_db) = insert 1 (set (stats_ids initial_db))"
proof -
  have h: "create_user 1000 ''Moamen User'' ''moamen@example.com'' ''hash123'' initial_db
     = (Inr 1, new_user_db)"
    by code_simp
  from create_user_atomic [of 1000 "''Moamen User''" "''moamen@example.com''" "''hash123''"
      initial_db] h show ?thesis
    by blast
qed

text \<open>
  C5. On a file that has the tables and whose keys all come from the counter of \<open>users\<close>
  (which holds after any sequence of calls of the program, see \<open>db_invariant_run_calls\<close>),
  \<open>create_user\<close> with an email that no user has returns a key, and the stats row found
  under that key holds 0 points, a streak of 0 and no date.
\<close>

theorem create_user_zero_stats:
  assumes "initialised d" and "keys_allocated d" and "email \<notin> set (user_emails d)"
  shows "\<exists>uid d'. create_user now name email password_hash d = (Inr uid, d') \<and>
     stats_of d' uid = Some \<lparr>us_user_id = uid, us_total_points = INTEGER 0,
        us_current_streak_days = INTEGER 0, us_last_activity_date = None\<rparr>"
proof -
  from assms(1) obtain us ss where us: "users d = Some us" and ss: "user_stats d = Some ss"
    by (auto simp add: initialised_def)
  let ?uid = "next_rowid (seq_users d) (map u_user_id us)"
  have fresh: "?uid \<notin> set (map us_user_id ss)"
  proof
    assume "?uid \<in> set (map us_user_id ss)"
    with assms(2) ss have "?uid \<le> seq_users d"
      by (auto simp add: keys_allocated_def stats_ids_def)
    with next_rowid_above_seq [of "seq_users d" "map u_user_id us"] show False
      by simp
  qed
  from assms(3) us have email: "email \<notin> set (map u_email us)"
    by (simp add: user_emails_def)
  show ?thesis
    using us ss email fresh
    by (simp add: create_user_unfold insert_users_def insert_user_stats_def Let_def
        fk_no_table_def fk_violated_def stats_of_def find_insort_key)
qed

theorem create_user_zero_stats_witness:
  "initialised initial_db \<and> keys_allocated initial_db \<and>
   ''moamen@example.com'' \<notin> set (user_emails initial_db) \<and>
   (\<exists>uid d'. create_user 1000 ''Moamen User'' ''moamen@example.com'' ''hash123'' initial_db
        = (Inr uid, d') \<and>
      stats_of d' uid = Some \<lparr>us_user_id = uid, us_total_points = INTEGER 0,
        us_current_streak_days = INTEGER 0, us_last_activity_date = None\<rparr>)"
proof -
  have h1: "initialised initial_db"
    by code_simp
  have h2: "keys_allocated initial_db"
    by code_simp
  have h3: "''moamen@example.com'' \<notin> set (user_emails initial_db)"
    by code_simp
  from create_user_zero_stats [OF h1 h2 h3] h1 h2 h3 show ?thesis
    by blast
qed

subsection \<open>Sessions and stats\<close>

text \<open>
  C10. \<open>add_mood_session\<close> and \<open>add_breathing_session\<close> store \<open>points_earned\<close> on the
  session row and leave the \<open>user_stats\<close> table as it was, whatever their arguments and
  whether they succeed or raise.
\<close>

theorem add_session_keeps_user_stats:
  "user_stats (snd (add_mood_session now user_id stress_level q1 q2 q3 points_earned d)) = user_stats d
   \<and> user_stats (snd (add_breathing_session now user_id level_id session_id points_earned d)) = user_stats d"
  by (simp add: add_mood_session_unfold add_breathing_session_unfold insert_mood_sessions_def
      insert_breathing_sessions_def Let_def split: option.splits)

text \<open>
  What \<open>add_mood_session\<close> does with the stress level, for parameters that fit in 64
  bits: outside 1..5 the \<open>CHECK\<close> constraint fails and nothing is inserted, inside it the
  row is appended under a new key, whoever \<open>user_id\<close> names.
\<close>

lemma add_mood_session_check:
  "mood_sessions d \<noteq> None \<Longrightarrow> int64 user_id \<Longrightarrow> int64 stress_level \<Longrightarrow>
   int64 points_earned \<Longrightarrow> stress_level < 1 \<or> 5 < stress_level \<Longrightarrow>
   add_mood_session now user_id stress_level q1 q2 q3 points_earned d
     = (Inl (IntegrityError CHECK), d)"
  by (auto simp add: add_mood_session_unfold insert_mood_sessions_def fk_no_table_def bind_def)

lemma add_mood_session_in_range:
  "mood_sessions d = Some rows \<Longrightarrow> int64 user_id \<Longrightarrow> int64 points_earned \<Longrightarrow>
   1 \<le> stress_level \<Longrightarrow> stress_level \<le> 5 \<Longrightarrow>
   add_mood_session now user_id stress_level q1 q2 q3 points_earned d
     = (Inr (next_rowid (seq_mood_sessions d) (map ms_session_id rows)),
        d\<lparr>mood_sessions := Some (rows @
             [\<lparr>ms_session_id = next_rowid (seq_mood_sessions d) (map ms_session_id rows),
               ms_user_id = user_id, ms_stress_level = stress_level, ms_q1_answer = q1,
               ms_q2_answer = q2, ms_q3_answer = q3, ms_points_earned = points_earned,
               ms_created_at = Some now\<rparr>]),
           seq_mood_sessions := next_rowid (seq_mood_sessions d) (map ms_session_id rows)\<rparr>)"
  by (simp add: add_mood_session_unfold insert_mood_sessions_def fk_no_table_def
      fk_violated_def bind_def int64_def Let_def)

lemma insert_mood_sessions_enforced_refuses:
  "insert_mood_sessions 1000 42 3 None None None 0 True initial_db
     = Inl (IntegrityError FOREIGN_KEY)"
  by code_simp

text \<open>
  C4. The part of the claim about \<open>user_id\<close> does not hold of the code: on the file that
  \<open>init_db\<close> leaves, where \<open>users\<close> is empty, \<open>add_mood_session\<close> for user 42 with stress
  level 3 returns session key 1 and the row is stored. The connection of
  \<open>add_mood_session\<close> does not enforce the foreign key; on an enforcing connection the
  same statement fails (\<open>insert_mood_sessions_enforced_refuses\<close>).
\<close>

theorem add_mood_session_unknown_user:
  "user_ids initial_db = [] \<and>
   fst (add_mood_session 1000 42 3 None None None 0 initial_db) = Inr 1 \<and>
   mood_session_owners (snd (add_mood_session 1000 42 3 None None None 0 initial_db)) = [42]"
  by code_simp

subsection \<open>Deleting\<close>

lemma delete_user_changes_users_only:
  "users d = Some rows \<Longrightarrow> int64 user_id \<Longrightarrow>
   delete_user user_id d = (Inr (), d\<lparr>users := Some (filter (\<lambda>r. u_user_id r \<noteq> user_id) rows)\<rparr>)"
  by (simp add: delete_user_unfold delete_users_def bind_def)

lemma delete_users_enforced_cascades:
  "(case delete_users 1 True demo_db of
      Inl e \<Rightarrow> False
    | Inr (d, _) \<Rightarrow> user_ids d = [] \<and> mood_session_owners d = []
        \<and> breathing_session_owners d = [] \<and> stats_ids d = [])"
  by code_simp

text \<open>
  C2. The cascade of the claim does not happen in the code: in the file of the entry
  point's run, user 1 owns a mood session, a breathing session and a stats row;
  \<open>delete_user 1\<close> succeeds, removes the \<open>users\<close> row and leaves the three other rows,
  which now reference no user. The connection of \<open>delete_user\<close> does not enforce foreign
  keys, so \<open>ON DELETE CASCADE\<close> never runs (\<open>delete_user_changes_users_only\<close>); on an
  enforcing connection the same statement removes all four
  (\<open>delete_users_enforced_cascades\<close>).
\<close>

theorem delete_user_no_cascade:
  "user_ids demo_db = [1] \<and> mood_session_owners demo_db = [1] \<and>
   breathing_session_owners demo_db = [1] \<and> stats_ids demo_db = [1] \<and>
   fst (delete_user 1 demo_db) = Inr () \<and>
   user_ids (snd (delete_user 1 demo_db)) = [] \<and>
   mood_session_owners (snd (delete_user 1 demo_db)) = [1] \<and>
   breathing_session_owners (snd (delete_user 1 demo_db)) = [1] \<and>
   stats_ids (snd (delete_user 1 demo_db)) = [1]"
  by code_simp

lemma delete_breathing_level_changes_levels_only:
  "breathing_levels d = Some rows \<Longrightarrow> int64 level_id \<Longrightarrow>
   delete_breathing_level level_id d
     = (Inr (), d\<lparr>breathing_levels := Some (filter (\<lambda>r. bl_level_id r \<noteq> level_id) rows)\<rparr>)"
  by (simp add: delete_breathing_level_unfold delete_breathing_levels_def bind_def)

lemma delete_breathing_levels_enforced_refuses:
  "delete_breathing_levels 3 True demo_db = Inl (IntegrityError FOREIGN_KEY)"
  by code_simp

text \<open>
  C3. The refusal of the claim does not happen in the code: in the file of the entry
  point's run a breathing session references level 3; \<open>delete_breathing_level 3\<close>
  succeeds, the level is gone and the session still names it. On an enforcing connection
  the same statement fails with the foreign-key error
  (\<open>delete_breathing_levels_enforced_refuses\<close>).
\<close>

theorem delete_breathing_level_not_refused:
  "level_ids demo_db = [1, 2, 3, 4, 5] \<and> breathing_session_levels demo_db = [3] \<and>
   fst (delete_breathing_level 3 demo_db) = Inr () \<and>
   level_ids (snd (delete_breathing_level 3 demo_db)) = [1, 2, 4, 5] \<and>
   breathing_session_levels (snd (delete_breathing_level 3 demo_db)) = [3]"
  by code_simp

subsection \<open>Initialising\<close>

lemma create_table_twice:
  "create_table_if_not_exists (create_table_if_not_exists t) = create_table_if_not_exists t"
  by (simp add: create_table_if_not_exists_def split: option.splits)

lemma ids_insert_or_ignore_row:
  "set (map bl_level_id (insert_or_ignore_row r rows))
     = insert (bl_level_id r) (set (map bl_level_id rows))"
  by (auto simp add: insert_or_ignore_row_def set_insort_key)

lemma ids_fold_insert_or_ignore:
  "set (map bl_level_id (fold insert_or_ignore_row rs rows))
     = set (map bl_level_id rs) \<union> set (map bl_level_id rows)"
proof (induction rs arbitrary: rows)
  case Nil
  show ?case by simp
next
  case (Cons r rs)
  show ?case
    by (simp only: fold_simps Cons.IH ids_insert_or_ignore_row) auto
qed

lemma fold_insert_or_ignore_present:
  "set (map bl_level_id rs) \<subseteq> set (map bl_level_id rows) \<Longrightarrow>
   fold insert_or_ignore_row rs rows = rows"
  by (induction rs) (auto simp add: insert_or_ignore_row_def)

lemma fold_insert_or_ignore_twice:
  "fold insert_or_ignore_row rs (fold insert_or_ignore_row rs rows)
     = fold insert_or_ignore_row rs rows"
proof (rule fold_insert_or_ignore_present)
  show "set (map bl_level_id rs) \<subseteq> set (map bl_level_id (fold insert_or_ignore_row rs rows))"
    by (simp only: ids_fold_insert_or_ignore) blast
qed

lemma set_fold_insert_or_ignore:
  "set (fold insert_or_ignore_row rs rows) \<subseteq> set rs \<union> set rows"
proof (induction rs arbitrary: rows)
  case Nil
  show ?case by simp
next
  case (Cons r rs)
  have "set (insert_or_ignore_row r rows) \<subseteq> insert r (set rows)"
    by (auto simp add: insert_or_ignore_row_def set_insort_key)
  with Cons.IH [of "insert_or_ignore_row r rows"] show ?case
    by auto
qed

lemma distinct_map_insort_key:
  "f x \<notin> set (map f xs) \<Longrightarrow> distinct (map f xs) \<Longrightarrow> distinct (map f (insort_key f x xs))"
  by (induction xs) (auto simp add: set_insort_key)

lemma sorted_distinct_insert_or_ignore_row:
  assumes "sorted (map bl_level_id rows)" and "distinct (map bl_level_id rows)"
  shows "sorted (map bl_level_id (insert_or_ignore_row r rows))
       \<and> distinct (map bl_level_id (insert_or_ignore_row r rows))"
  using assms by (simp add: insert_or_ignore_row_def sorted_insort_key distinct_map_insort_key)

lemma sorted_distinct_fold_insert_or_ignore:
  "sorted (map bl_level_id rows) \<Longrightarrow> distinct (map bl_level_id rows) \<Longrightarrow>
   sorted (map bl_level_id (fold insert_or_ignore_row rs rows))
   \<and> distinct (map bl_level_id (fold insert_or_ignore_row rs rows))"
proof (induction rs arbitrary: rows)
  case Nil
  then show ?case by simp
next
  case (Cons r rs)
  from sorted_distinct_insert_or_ignore_row [OF Cons.prems, of r] Cons.IH show ?case
    by simp
qed

lemma seed_level_ids: "map bl_level_id seed_levels = [1, 2, 3, 4, 5]"
  by (simp add: seed_levels_def)

lemma seeded_rows_are_seed:
  assumes sub: "set rows \<subseteq> set seed_levels"
    and srt: "sorted (map bl_level_id rows)" and dst: "distinct (map bl_level_id rows)"
    and ids: "set (map bl_level_id seed_levels) \<subseteq> set (map bl_level_id rows)"
  shows "rows = seed_levels"
proof -
  have "set (map bl_level_id rows) \<subseteq> set (map bl_level_id seed_levels)"
    using sub by auto
  with ids have same: "set (map bl_level_id rows) = set (map bl_level_id seed_levels)"
    by blast
  have "sorted (map bl_level_id seed_levels)" and dseed: "distinct (map bl_level_id seed_levels)"
    by (simp_all add: seed_level_ids)
  with srt dst same have keys: "map bl_level_id rows = map bl_level_id seed_levels"
    by (simp add: sorted_distinct_set_unique)
  from dseed have "inj_on bl_level_id (set seed_levels)"
    by (simp add: distinct_map)
  with sub have "inj_on bl_level_id (set rows \<union> set seed_levels)"
    by (simp add: Un_absorb1)
  with keys show ?thesis
    by (simp add: inj_on_map_eq_map)
qed

lemma init_db_twice: "init_db (snd (init_db d)) = (Inr (), snd (init_db d))"
  by (simp add: init_db_unfold create_table_twice fold_insert_or_ignore_twice)

lemma init_db_repeated: "((\<lambda>d. snd (init_db d)) ^^ Suc n) d = snd (init_db d)"
proof (induction n)
  case 0
  show ?case by simp
next
  case (Suc n)
  have "((\<lambda>d. snd (init_db d)) ^^ Suc (Suc n)) d
      = snd (init_db (((\<lambda>d. snd (init_db d)) ^^ Suc n) d))"
    by simp
  also have "\<dots> = snd (init_db (snd (init_db d)))"
    by (simp only: Suc.IH)
  also have "\<dots> = snd (init_db d)"
    by (simp add: init_db_twice)
  finally show ?case .
qed

lemma init_db_catalogue:
  assumes "catalogue_seeded d"
  shows "breathing_levels (snd (init_db d)) = Some seed_levels"
proof -
  let ?old = "case breathing_levels d of None \<Rightarrow> [] | Some rows \<Rightarrow> rows"
  let ?new = "fold insert_or_ignore_row seed_levels ?old"
  from assms have old: "set ?old \<subseteq> set seed_levels" "sorted (map bl_level_id ?old)"
      "distinct (map bl_level_id ?old)"
    by (auto simp add: catalogue_seeded_def split: option.splits)
  have "set ?new \<subseteq> set seed_levels"
    using set_fold_insert_or_ignore [of seed_levels ?old] old(1) by auto
  moreover have "sorted (map bl_level_id ?new)" "distinct (map bl_level_id ?new)"
    using sorted_distinct_fold_insert_or_ignore [OF old(2,3)] by simp_all
  moreover have "set (map bl_level_id seed_levels) \<subseteq> set (map bl_level_id ?new)"
    by (simp only: ids_fold_insert_or_ignore) blast
  ultimately have "?new = seed_levels"
    by (rule seeded_rows_are_seed)
  then show ?thesis
    by (simp add: init_db_unfold)
qed

text \<open>
  C7. On a file whose catalogue, if it exists, holds seed rows only (which holds after any
  sequence of calls of the program, see \<open>db_invariant_run_calls\<close>), \<open>init_db\<close> succeeds,
  all five tables exist afterwards, \<open>breathing_levels\<close> is exactly the list of the five
  seed rows (keys 1..5, the listed titles, 60..300 seconds, 10..50 points), the rows of
  the other tables are kept, and calling \<open>init_db\<close> again, any number of times, changes
  nothing more.
\<close>

theorem init_db_idempotent:
  assumes "catalogue_seeded d"
  shows "fst (init_db d) = Inr () \<and>
    initialised (snd (init_db d)) \<and>
    breathing_levels (snd (init_db d)) = Some seed_levels \<and>
    map bl_level_id seed_levels = [1, 2, 3, 4, 5] \<and>
    map bl_title seed_levels = [''Level 1 - Easy'', ''Level 2 - Light'', ''Level 3 - Medium'',
      ''Level 4 - Hard'', ''Level 5 - Expert''] \<and>
    map bl_duration_seconds seed_levels = [60, 120, 180, 240, 300] \<and>
    map bl_base_points seed_levels = [10, 20, 30, 40, 50] \<and>
    init_db (snd (init_db d)) = (Inr (), snd (init_db d)) \<and>
    (\<forall>n. ((\<lambda>d. snd (init_db d)) ^^ Suc n) d = snd (init_db d)) \<and>
    (\<forall>rows. users d = Some rows \<longrightarrow> users (snd (init_db d)) = Some rows) \<and>
    (\<forall>rows. mood_sessions d = Some rows \<longrightarrow> mood_sessions (snd (init_db d)) = Some rows) \<and>
    (\<forall>rows. breathing_sessions d = Some rows \<longrightarrow>
       breathing_sessions (snd (init_db d)) = Some rows) \<and>
    (\<forall>rows. user_stats d = Some rows \<longrightarrow> user_stats (snd (init_db d)) = Some rows)"
proof -
  have "fst (init_db d) = Inr ()"
    by (simp add: init_db_unfold)
  moreover have "initialised (snd (init_db d))"
    by (simp add: init_db_unfold initialised_def create_table_if_not_exists_def
        split: option.splits)
  moreover have "(\<forall>rows. users d = Some rows \<longrightarrow> users (snd (init_db d)) = Some rows) \<and>
    (\<forall>rows. mood_sessions d = Some rows \<longrightarrow> mood_sessions (snd (init_db d)) = Some rows) \<and>
    (\<forall>rows. breathing_sessions d = Some rows \<longrightarrow>
       breathing_sessions (snd (init_db d)) = Some rows) \<and>
    (\<forall>rows. user_stats d = Some rows \<longrightarrow> user_stats (snd (init_db d)) = Some rows)"
    by (simp add: init_db_unfold create_table_if_not_exists_def)
  moreover have "map bl_title seed_levels = [''Level 1 - Easy'', ''Level 2 - Light'',
      ''Level 3 - Medium'', ''Level 4 - Hard'', ''Level 5 - Expert'']"
    and "map bl_duration_seconds seed_levels = [60, 120, 180, 240, 300]"
    and "map bl_base_points seed_levels = [10, 20, 30, 40, 50]"
    by (simp_all add: seed_levels_def)
  ultimately show ?thesis
    using init_db_catalogue [OF assms] seed_level_ids init_db_twice [of d] init_db_repeated [of _ d]
    by simp
qed

theorem init_db_idempotent_witness:
  "catalogue_seeded demo_db \<and> init_db demo_db = (Inr (), demo_db) \<and>
   breathing_levels demo_db = Some seed_levels"
proof -
  have h: "catalogue_seeded demo_db"
    by code_simp
  have d: "demo_db = snd (init_db demo_db)"
    by code_simp
  from init_db_idempotent [OF h] h d show ?thesis
    by metis
qed

subsection \<open>What every sequence of calls maintains\<close>

lemma keys_init_db: "keys_allocated d \<Longrightarrow> keys_allocated (snd (init_db d))"
  by (simp add: init_db_unfold keys_allocated_def user_ids_def stats_ids_def
      create_table_if_not_exists_def split: option.splits)

lemma keys_add_mood_session:
  "keys_allocated d \<Longrightarrow>
   keys_allocated (snd (add_mood_session now user_id stress_level q1 q2 q3 points_earned d))"
  by (simp add: add_mood_session_unfold insert_mood_sessions_def Let_def
      keys_allocated_def user_ids_def stats_ids_def split: option.splits)

lemma keys_add_breathing_session:
  "keys_allocated d \<Longrightarrow>
   keys_allocated (snd (add_breathing_session now user_id level_id session_id points_earned d))"
  by (simp add: add_breathing_session_unfold insert_breathing_sessions_def Let_def
      keys_allocated_def user_ids_def stats_ids_def split: option.splits)

lemma keys_update_user_stats:
  "keys_allocated d \<Longrightarrow> keys_allocated (snd (update_user_stats now user_id added_points d))"
  by (auto simp add: update_user_stats_unfold update_user_stats_set_def
      keys_allocated_def user_ids_def stats_ids_def split: option.splits)

lemma keys_delete_user: "keys_allocated d \<Longrightarrow> keys_allocated (snd (delete_user user_id d))"
  by (auto simp add: delete_user_unfold delete_users_def
      keys_allocated_def user_ids_def stats_ids_def split: option.splits)

lemma keys_delete_mood_session:
  "keys_allocated d \<Longrightarrow> keys_allocated (snd (delete_mood_session session_id d))"
  by (auto simp add: delete_mood_session_unfold delete_mood_sessions_def
      keys_allocated_def user_ids_def stats_ids_def split: option.splits)

lemma keys_delete_breathing_session:
  "keys_allocated d \<Longrightarrow> keys_allocated (snd (delete_breathing_session breathing_session_id d))"
  by (auto simp add: delete_breathing_session_unfold delete_breathing_sessions_def
      keys_allocated_def user_ids_def stats_ids_def split: option.splits)

lemma keys_delete_breathing_level:
  "keys_allocated d \<Longrightarrow> keys_allocated (snd (delete_breathing_level level_id d))"
  by (auto simp add: delete_breathing_level_unfold delete_breathing_levels_def
      keys_allocated_def user_ids_def stats_ids_def split: option.splits)

lemma keys_delete_user_stats:
  "keys_allocated d \<Longrightarrow> keys_allocated (snd (delete_user_stats user_id d))"
  by (auto simp add: delete_user_stats_unfold delete_user_stats_rows_def
      keys_allocated_def user_ids_def stats_ids_def split: option.splits)

lemma keys_create_user:
  assumes "keys_allocated d"
  shows "keys_allocated (snd (create_user now name email password_hash d))"
proof (cases "create_user now name email password_hash d")
  case (Pair res d')
  show ?thesis
  proof (cases res)
    case (Inl e)
    with Pair create_user_failure [of now name email password_hash d e d'] assms show ?thesis
      by simp
  next
    case (Inr uid)
    with Pair have "create_user now name email password_hash d = (Inr uid, d')"
      by simp
    from create_user_success [OF this]
    obtain us ss where us: "users d = Some us" and ss: "user_stats d = Some ss"
      and uid: "uid = next_rowid (seq_users d) (map u_user_id us)"
      and d': "d' = d\<lparr>users := Some (us @ [\<lparr>u_user_id = uid, u_name = name, u_email = email,
                u_password_hash = password_hash, u_created_at = Some now\<rparr>]),
             seq_users := uid,
             user_stats := Some (insort_key us_user_id
                \<lparr>us_user_id = uid, us_total_points = INTEGER 0,
                 us_current_streak_days = INTEGER 0, us_last_activity_date = None\<rparr> ss)\<rparr>"
      by blast
    have u: "set (user_ids d') = insert uid (set (user_ids d))"
      using us by (simp add: d' user_ids_def)
    have s: "set (stats_ids d') = insert uid (set (stats_ids d))"
      using ss by (simp add: d' stats_ids_def set_insort_key)
    have q: "seq_users d' = uid"
      by (simp add: d')
    have "seq_users d \<le> uid"
      using next_rowid_above_seq [of "seq_users d" "map u_user_id us"] uid by simp
    with assms have "keys_allocated d'"
      unfolding keys_allocated_def u s q by auto
    with Pair show ?thesis
      by simp
  qed
qed

lemma keys_allocated_call: "keys_allocated d \<Longrightarrow> keys_allocated (call_db c d)"
  by (cases c)
    (simp_all add: keys_init_db keys_create_user keys_add_mood_session keys_add_breathing_session
      keys_update_user_stats keys_delete_user keys_delete_mood_session
      keys_delete_breathing_session keys_delete_breathing_level keys_delete_user_stats)

lemma create_user_tables:
  "breathing_levels (snd (create_user now name email password_hash d)) = breathing_levels d
   \<and> (initialised d \<longrightarrow> initialised (snd (create_user now name email password_hash d)))"
proof (cases "create_user now name email password_hash d")
  case (Pair res d')
  show ?thesis
  proof (cases res)
    case (Inl e)
    with Pair create_user_failure [of now name email password_hash d e d'] show ?thesis
      by simp
  next
    case (Inr uid)
    with Pair have "create_user now name email password_hash d = (Inr uid, d')"
      by simp
    from create_user_success [OF this] Pair show ?thesis
      by (auto simp add: initialised_def)
  qed
qed

lemma add_mood_session_tables:
  "breathing_levels (snd (add_mood_session now user_id stress_level q1 q2 q3 points_earned d))
     = breathing_levels d
   \<and> (initialised d \<longrightarrow>
        initialised (snd (add_mood_session now user_id stress_level q1 q2 q3 points_earned d)))"
  by (simp add: add_mood_session_unfold insert_mood_sessions_def Let_def initialised_def
      split: option.splits)

lemma add_breathing_session_tables:
  "breathing_levels (snd (add_breathing_session now user_id level_id session_id points_earned d))
     = breathing_levels d
   \<and> (initialised d \<longrightarrow>
        initialised (snd (add_breathing_session now user_id level_id session_id points_earned d)))"
  by (simp add: add_breathing_session_unfold insert_breathing_sessions_def Let_def
      initialised_def split: option.splits)

lemma update_user_stats_tables:
  "breathing_levels (snd (update_user_stats now user_id added_points d)) = breathing_levels d
   \<and> (initialised d \<longrightarrow> initialised (snd (update_user_stats now user_id added_points d)))"
  by (simp add: update_user_stats_unfold update_user_stats_set_def initialised_def
      split: option.splits)

lemma delete_user_tables:
  "breathing_levels (snd (delete_user user_id d)) = breathing_levels d
   \<and> (initialised d \<longrightarrow> initialised (snd (delete_user user_id d)))"
  by (simp add: delete_user_unfold delete_users_def initialised_def split: option.splits)

lemma delete_mood_session_tables:
  "breathing_levels (snd (delete_mood_session session_id d)) = breathing_levels d
   \<and> (initialised d \<longrightarrow> initialised (snd (delete_mood_session session_id d)))"
  by (simp add: delete_mood_session_unfold delete_mood_sessions_def initialised_def
      split: option.splits)

lemma delete_breathing_session_tables:
  "breathing_levels (snd (delete_breathing_session breathing_session_id d)) = breathing_levels d
   \<and> (initialised d \<longrightarrow> initialised (snd (delete_breathing_session breathing_session_id d)))"
  by (simp add: delete_breathing_session_unfold delete_breathing_sessions_def initialised_def
      split: option.splits)

lemma delete_user_stats_tables:
  "breathing_levels (snd (delete_user_stats user_id d)) = breathing_levels d
   \<and> (initialised d \<longrightarrow> initialised (snd (delete_user_stats user_id d)))"
  by (simp add: delete_user_stats_unfold delete_user_stats_rows_def initialised_def
      split: option.splits)

lemma delete_breathing_level_tables:
  "(catalogue_seeded d \<longrightarrow> catalogue_seeded (snd (delete_breathing_level level_id d)))
   \<and> (initialised d \<longrightarrow> initialised (snd (delete_breathing_level level_id d)))"
  by (auto simp add: delete_breathing_level_unfold delete_breathing_levels_def initialised_def
      catalogue_seeded_def sorted_filter distinct_map_filter split: option.splits)

lemma init_db_tables:
  "(catalogue_seeded d \<longrightarrow> catalogue_seeded (snd (init_db d))) \<and> initialised (snd (init_db d))"
proof -
  have "catalogue_seeded (snd (init_db d))" if "catalogue_seeded d"
    using init_db_catalogue [OF that] by (simp add: catalogue_seeded_def seed_level_ids)
  moreover have "initialised (snd (init_db d))"
    by (simp add: init_db_unfold initialised_def create_table_if_not_exists_def
        split: option.splits)
  ultimately show ?thesis
    by simp
qed

lemma catalogue_seeded_levels:
  "breathing_levels d' = breathing_levels d \<Longrightarrow> catalogue_seeded d \<Longrightarrow> catalogue_seeded d'"
  by (simp add: catalogue_seeded_def)

lemma catalogue_seeded_call: "catalogue_seeded d \<Longrightarrow> catalogue_seeded (call_db c d)"
proof (cases c)
  case Init_db
  assume "catalogue_seeded d"
  with init_db_tables [of d] Init_db show ?thesis
    by simp
next
  case (Delete_breathing_level level_id)
  assume "catalogue_seeded d"
  with delete_breathing_level_tables [of d level_id] Delete_breathing_level show ?thesis
    by simp
qed (simp_all add: catalogue_seeded_levels create_user_tables add_mood_session_tables
      add_breathing_session_tables update_user_stats_tables delete_user_tables
      delete_mood_session_tables delete_breathing_session_tables delete_user_stats_tables)

lemma initialised_call: "initialised d \<Longrightarrow> initialised (call_db c d)"
  by (cases c)
    (simp_all add: init_db_tables create_user_tables add_mood_session_tables
      add_breathing_session_tables update_user_stats_tables delete_user_tables
      delete_mood_session_tables delete_breathing_session_tables delete_breathing_level_tables
      delete_user_stats_tables)

lemma db_invariant_call: "db_invariant d \<Longrightarrow> db_invariant (call_db c d)"
  by (simp add: db_invariant_def keys_allocated_call catalogue_seeded_call)

lemma db_invariant_fold: "db_invariant d \<Longrightarrow> db_invariant (fold call_db cs d)"
  by (induction cs arbitrary: d) (simp_all add: db_invariant_call)

lemma db_invariant_empty: "db_invariant empty_db"
  by (simp add: db_invariant_def keys_allocated_def catalogue_seeded_def empty_db_def
      user_ids_def stats_ids_def)

lemma db_invariant_run_calls: "db_invariant (run_calls cs)"
  by (simp add: run_calls_def db_invariant_fold db_invariant_empty)

lemma initialised_fold: "initialised d \<Longrightarrow> initialised (fold call_db cs d)"
  by (induction cs arbitrary: d) (simp_all add: initialised_call)

lemma initialised_run_calls: "initialised (run_calls (Init_db # cs))"
  by (simp add: run_calls_def initialised_fold init_db_tables)

end
